theory Spec2Isabelle
  imports Main
begin

section \<open>Values, messages and state dictionaries\<close>

text \<open>
  The notebook \<^verbatim>\<open>00_understanding_state.ipynb\<close> keeps its state in two
  \<^verbatim>\<open>TypedDict\<close> classes. At run time a \<^verbatim>\<open>TypedDict\<close> is a plain Python
  dictionary and its constructor checks nothing, so a state is modelled as a map from key
  names to Python values, and every lookup, addition and index of the source has its
  failing branch in the model.

  \<^verbatim>\<open>HumanMessage\<close> and \<^verbatim>\<open>AIMessage\<close> come from \<^verbatim>\<open>langchain_core.messages\<close>;
  the notebook uses only their constructors and the \<^verbatim>\<open>content\<close> attribute. Text is a
  \<^typ>\<open>string\<close>; the source only concatenates text, which reads the same on code
  points and on bytes.
\<close>

datatype message = HumanMessage (content: string) | AIMessage (content: string)

datatype pyval = IntV int | ListV "message list"

datatype py_error =
  KeyError | TypeError | IndexError | ValueError | GraphError | GraphRecursionError

type_synonym pydict = "string \<rightharpoonup> pyval"

type_synonym 'a result = "py_error + 'a"

text \<open>Sequencing of fallible steps: the first raised error ends the computation.\<close>

definition try_bind :: "'a result \<Rightarrow> ('a \<Rightarrow> 'b result) \<Rightarrow> 'b result" where
  "try_bind r f = (case r of Inl e \<Rightarrow> Inl e | Inr v \<Rightarrow> f v)"

text \<open>\<^verbatim>\<open>state[key]\<close>: raises \<^verbatim>\<open>KeyError\<close> on a missing key.\<close>

definition getitem :: "pydict \<Rightarrow> string \<Rightarrow> pyval result" where
  "getitem state key = (case state key of None \<Rightarrow> Inl KeyError | Some v \<Rightarrow> Inr v)"

text \<open>\<^verbatim>\<open>v + 1\<close> with an integer right operand: the sum of two integers (Python
  integers are unbounded); a list on the left raises \<^verbatim>\<open>TypeError\<close>.\<close>

definition add_int :: "pyval \<Rightarrow> int \<Rightarrow> int result" where
  "add_int v k = (case v of IntV i \<Rightarrow> Inr (i + k) | ListV _ \<Rightarrow> Inl TypeError)"

text \<open>\<^verbatim>\<open>v + [m]\<close> with a list right operand: concatenation builds a new list and
  leaves both operands as they are; an integer on the left raises \<^verbatim>\<open>TypeError\<close>.\<close>

definition add_list :: "pyval \<Rightarrow> message list \<Rightarrow> message list result" where
  "add_list v ms = (case v of ListV xs \<Rightarrow> Inr (xs @ ms) | IntV _ \<Rightarrow> Inl TypeError)"

text \<open>Truth value of a Python object in a condition: a list is true when it is not empty,
  an integer when it is not zero.\<close>

definition truthy :: "pyval \<Rightarrow> bool" where
  "truthy v = (case v of IntV i \<Rightarrow> i \<noteq> 0 | ListV xs \<Rightarrow> xs \<noteq> [])"

text \<open>\<^verbatim>\<open>v[i]\<close> on a list: the length is added to a negative index, and a position
  that is then still negative or not below the length raises \<^verbatim>\<open>IndexError\<close>; an
  integer is not subscriptable.\<close>

definition index :: "pyval \<Rightarrow> int \<Rightarrow> message result" where
  "index v i =
     (case v of
        IntV _ \<Rightarrow> Inl TypeError
      | ListV xs \<Rightarrow>
          (let size = int (length xs); pos = (if i < 0 then i + size else i)
           in if pos < 0 \<or> size \<le> pos then Inl IndexError else Inr (xs ! nat pos)))"

text \<open>The decimal text of an integer: a minus sign when it is negative, no leading
  zero.\<close>

definition digit_char :: "nat \<Rightarrow> char" where
  "digit_char d = ''0123456789'' ! d"

fun digits :: "nat \<Rightarrow> string" where
  "digits n = (if n < 10 then [digit_char n] else digits (n div 10) @ [digit_char (n mod 10)])"

declare digits.simps [simp del]

definition decimal_text :: "int \<Rightarrow> string" where
  "decimal_text i = (if i < 0 then CHR ''-'' # digits (nat (- i)) else digits (nat i))"

text \<open>
  \<^verbatim>\<open>{n}\<close> inside an f-string, for an integer \<open>n\<close>: the interpreter converts integers
  to decimal text only up to \<^verbatim>\<open>sys.int_info.default_max_str_digits\<close> digits, the sign
  not counted, and raises \<^verbatim>\<open>ValueError\<close> beyond. The notebook leaves the limit at its
  default of 4300 (the kernel is Python 3.10.16).
\<close>

definition int_max_str_digits :: nat where
  "int_max_str_digits = 4300"

definition format_int :: "int \<Rightarrow> string result" where
  "format_int i =
     (if int_max_str_digits < length (digits (nat \<bar>i\<bar>)) then Inl ValueError
      else Inr (decimal_text i))"

text \<open>The two \<^verbatim>\<open>TypedDict\<close> constructors, called with keyword arguments: they build
  the dictionary with exactly the given keys.\<close>

definition BasicState :: "pyval \<Rightarrow> pydict" where
  "BasicState c = [''count'' \<mapsto> c]"

definition ComplexState :: "pyval \<Rightarrow> pyval \<Rightarrow> pydict" where
  "ComplexState c ms = [''count'' \<mapsto> c, ''messages'' \<mapsto> ms]"

section \<open>State modification functions\<close>

text \<open>
  \<^verbatim>\<open>
  def increment_count(state: BasicState) -> BasicState:
      return BasicState(count=state["count"] + 1)
  \<close>
  The body assigns to nothing: the argument is only read and the result is a dictionary
  built by the call.
\<close>

definition increment_count :: "pydict \<Rightarrow> pydict result" where
  "increment_count state =
     try_bind (getitem state ''count'') (\<lambda>c.
     try_bind (add_int c 1) (\<lambda>c'.
     Inr (BasicState (IntV c'))))"

text \<open>
  \<^verbatim>\<open>
  def add_message(state: ComplexState, message: str, is_human: bool = True) -> ComplexState:
      new_message = HumanMessage(content=message) if is_human else AIMessage(content=message)
      return ComplexState(
          count=state["count"],
          messages=state["messages"] + [new_message]
      )
  \<close>
  The third parameter has a default: a call that leaves it out is \<open>None\<close> here.
\<close>

definition add_message :: "pydict \<Rightarrow> string \<Rightarrow> bool option \<Rightarrow> pydict result" where
  "add_message state message is_human_arg =
     (let is_human = (case is_human_arg of None \<Rightarrow> True | Some b \<Rightarrow> b);
          new_message = (if is_human then HumanMessage message else AIMessage message)
      in try_bind (getitem state ''count'') (\<lambda>c.
         try_bind (getitem state ''messages'') (\<lambda>ms.
         try_bind (add_list ms [new_message]) (\<lambda>ms'.
         Inr (ComplexState c (ListV ms'))))))"

text \<open>Repeated application of \<^const>\<open>increment_count\<close>, each call on the result of the
  one before.\<close>

fun increment_times :: "nat \<Rightarrow> pydict \<Rightarrow> pydict result" where
  "increment_times 0 state = Inr state"
| "increment_times (Suc n) state = try_bind (increment_count state) (increment_times n)"

section \<open>The steps of the two graphs\<close>

text \<open>
  \<^verbatim>\<open>
  def increment_node(state: BasicState):
      return {"count": state["count"] + 1}
  \<close>
\<close>

definition increment_node :: "pydict \<Rightarrow> pydict result" where
  "increment_node state =
     try_bind (getitem state ''count'') (\<lambda>c.
     try_bind (add_int c 1) (\<lambda>c'.
     Inr [''count'' \<mapsto> IntV c']))"

text \<open>
  \<^verbatim>\<open>
  def process_message(state: ComplexState):
      last_message = state["messages"][-1].content if state["messages"] else "No messages yet"
      response = f"Received: {last_message}. Count is now {state['count'] + 1}"
      return {
          "count": state["count"] + 1,
          "messages": state["messages"] + [AIMessage(content=response)]
      }
  \<close>
  The conditional expression evaluates its condition first and then one branch only. The
  f-string evaluates and formats its fields from left to right, before the dictionary of
  the \<^verbatim>\<open>return\<close> is built.
\<close>

definition process_message :: "pydict \<Rightarrow> pydict result" where
  "process_message state =
     try_bind
       (try_bind (getitem state ''messages'') (\<lambda>cond.
          if truthy cond
          then try_bind (getitem state ''messages'') (\<lambda>ms.
               try_bind (index ms (- 1)) (\<lambda>m.
               Inr (content m)))
          else Inr ''No messages yet''))
       (\<lambda>last_message.
     try_bind (getitem state ''count'') (\<lambda>c.
     try_bind (add_int c 1) (\<lambda>shown.
     try_bind (format_int shown) (\<lambda>shown_text.
     let response = ''Received: '' @ last_message @ ''. Count is now '' @ shown_text in
     try_bind (getitem state ''count'') (\<lambda>c.
     try_bind (add_int c 1) (\<lambda>c'.
     try_bind (getitem state ''messages'') (\<lambda>ms.
     try_bind (add_list ms [AIMessage response]) (\<lambda>ms'.
     Inr [''count'' \<mapsto> IntV c', ''messages'' \<mapsto> ListV ms']))))))))"

section \<open>The graph engine\<close>

text \<open>
  Modelled from the spec: the graph engine (\<^verbatim>\<open>StateGraph\<close>, \<^verbatim>\<open>add_node\<close>,
  \<^verbatim>\<open>set_entry_point\<close>, \<^verbatim>\<open>add_edge\<close>, \<^verbatim>\<open>END\<close>, \<^verbatim>\<open>compile\<close>, \<^verbatim>\<open>invoke\<close>) is the
  \<^verbatim>\<open>langgraph\<close> library, which the notebook imports and does not contain. The
  specification gives it as an interface (register a step, set the entry, connect a step
  to the terminal marker, compile, invoke) whose execution walks from the entry to the
  terminal marker and merges each step's partial result into the running record. The model
  is that interface: a table of steps, an entry, a table of edges; a walk that runs the
  step, lets the keys of its partial update replace those of the record, and follows the
  edge; a bound on the number of steps, since edges may form a cycle. The schema argument
  of \<^verbatim>\<open>StateGraph\<close> only names the keys of the state, which the dictionaries here carry
  themselves.
\<close>

record StateGraph =
  nodes :: "string \<rightharpoonup> (pydict \<Rightarrow> pydict result)"
  entry_point :: "string option"
  edges :: "string \<rightharpoonup> string"

definition END :: string where
  "END = ''__end__''"

definition StateGraph_init :: StateGraph where
  "StateGraph_init = \<lparr>nodes = Map.empty, entry_point = None, edges = Map.empty\<rparr>"

definition add_node :: "StateGraph \<Rightarrow> string \<Rightarrow> (pydict \<Rightarrow> pydict result) \<Rightarrow> StateGraph" where
  "add_node g name step = g\<lparr>nodes := (nodes g)(name \<mapsto> step)\<rparr>"

definition set_entry_point :: "StateGraph \<Rightarrow> string \<Rightarrow> StateGraph" where
  "set_entry_point g name = g\<lparr>entry_point := Some name\<rparr>"

definition add_edge :: "StateGraph \<Rightarrow> string \<Rightarrow> string \<Rightarrow> StateGraph" where
  "add_edge g start_key end_key = g\<lparr>edges := (edges g)(start_key \<mapsto> end_key)\<rparr>"

text \<open>Compiling checks that an entry is set and names a registered step.\<close>

definition compile :: "StateGraph \<Rightarrow> StateGraph result" where
  "compile g =
     (case entry_point g of
        None \<Rightarrow> Inl GraphError
      | Some name \<Rightarrow> (case nodes g name of None \<Rightarrow> Inl GraphError | Some _ \<Rightarrow> Inr g))"

fun walk :: "nat \<Rightarrow> StateGraph \<Rightarrow> string \<Rightarrow> pydict \<Rightarrow> pydict result" where
  "walk 0 g name state = Inl GraphRecursionError"
| "walk (Suc n) g name state =
     (case nodes g name of
        None \<Rightarrow> Inl GraphError
      | Some step \<Rightarrow>
          (case step state of
             Inl e \<Rightarrow> Inl e
           | Inr update \<Rightarrow>
               (case edges g name of
                  None \<Rightarrow> Inl GraphError
                | Some next_key \<Rightarrow>
                    if next_key = END then Inr (state ++ update)
                    else walk n g next_key (state ++ update))))"

definition invoke :: "StateGraph \<Rightarrow> nat \<Rightarrow> pydict \<Rightarrow> pydict result" where
  "invoke g recursion_limit state =
     (case entry_point g of
        None \<Rightarrow> Inl GraphError
      | Some name \<Rightarrow> walk recursion_limit g name state)"

section \<open>The two graphs of the notebook\<close>

text \<open>
  \<^verbatim>\<open>
  def create_simple_graph():
      workflow = StateGraph(BasicState)
      def increment_node(state: BasicState): ...
      workflow.add_node("increment", increment_node)
      workflow.set_entry_point("increment")
      workflow.add_edge("increment", END)
      return workflow.compile()
  \<close>
\<close>

definition create_simple_graph :: "StateGraph result" where
  "create_simple_graph =
     (let workflow = StateGraph_init;
          workflow = add_node workflow ''increment'' increment_node;
          workflow = set_entry_point workflow ''increment'';
          workflow = add_edge workflow ''increment'' END
      in compile workflow)"

text \<open>
  \<^verbatim>\<open>
  def create_complex_graph():
      workflow = StateGraph(ComplexState)
      def process_message(state: ComplexState): ...
      workflow.add_node("process", process_message)
      workflow.set_entry_point("process")
      workflow.add_edge("process", END)
      return workflow.compile()
  \<close>
\<close>

definition create_complex_graph :: "StateGraph result" where
  "create_complex_graph =
     (let workflow = StateGraph_init;
          workflow = add_node workflow ''process'' process_message;
          workflow = set_entry_point workflow ''process'';
          workflow = add_edge workflow ''process'' END
      in compile workflow)"

section \<open>Lookups, equality and merging of the two kinds of record\<close>

lemma getitem_BasicState: "getitem (BasicState c) ''count'' = Inr c"
  by (simp add: getitem_def BasicState_def)

lemma getitem_ComplexState_count: "getitem (ComplexState c ms) ''count'' = Inr c"
  by (simp add: getitem_def ComplexState_def)

lemma getitem_ComplexState_messages: "getitem (ComplexState c ms) ''messages'' = Inr ms"
  by (simp add: getitem_def ComplexState_def)

lemma BasicState_eq_iff: "(BasicState a = BasicState b) = (a = b)"
proof
  assume "BasicState a = BasicState b"
  then have "BasicState a ''count'' = BasicState b ''count''" by simp
  then show "a = b" by (simp add: BasicState_def)
qed simp

lemma merge_basic: "BasicState a ++ [''count'' \<mapsto> b] = BasicState b"
  by (simp add: BasicState_def)

lemma merge_complex:
  "ComplexState a b ++ [''count'' \<mapsto> c, ''messages'' \<mapsto> d] = ComplexState c d"
  by (rule ext) (simp add: ComplexState_def map_add_def)

text \<open>On dictionaries that are not records of the two kinds the failing branches are
  taken: a missing key, a count that is not an integer.\<close>

lemma increment_count_ill_formed:
  "increment_count Map.empty = Inl KeyError
   \<and> increment_count (BasicState (ListV [])) = Inl TypeError"
  by (simp add: increment_count_def try_bind_def getitem_def BasicState_def add_int_def)

section \<open>Decimal text of an integer\<close>

lemma digit_char_inj:
  assumes "d < 10" and "e < 10" and "digit_char d = digit_char e"
  shows "d = e"
proof -
  have "distinct ''0123456789''" by simp
  moreover have "d < length ''0123456789''" and "e < length ''0123456789''"
    using assms by simp_all
  ultimately show ?thesis
    using assms(3) unfolding digit_char_def by (simp only: nth_eq_iff_index_eq)
qed

lemma digit_char_not_minus:
  assumes "d < 10"
  shows "digit_char d \<noteq> CHR ''-''"
proof -
  have "d < length ''0123456789''" using assms by simp
  then have "digit_char d \<in> set ''0123456789''"
    unfolding digit_char_def by (rule nth_mem)
  then show ?thesis by auto
qed

lemma digits_not_Nil: "digits n \<noteq> []"
  by (subst digits.simps) simp

lemma hd_digits_not_minus: "hd (digits n) \<noteq> CHR ''-''"
proof (induction n rule: digits.induct)
  case (1 n)
  show ?case
  proof (cases "n < 10")
    case True
    then show ?thesis by (subst digits.simps) (simp add: digit_char_not_minus)
  next
    case False
    with 1 show ?thesis by (subst digits.simps) (simp add: digits_not_Nil)
  qed
qed

lemma digits_inj: "digits m = digits n \<Longrightarrow> m = n"
proof (induction m arbitrary: n rule: digits.induct)
  case (1 m)
  show ?case
  proof (cases "m < 10")
    case small_m: True
    then have dm: "digits m = [digit_char m]" by (subst digits.simps) simp
    show ?thesis
    proof (cases "n < 10")
      case True
      then have "digits n = [digit_char n]" by (subst digits.simps) simp
      with dm "1.prems" have "digit_char m = digit_char n" by simp
      with small_m True show ?thesis by (rule digit_char_inj)
    next
      case False
      then have "digits n = digits (n div 10) @ [digit_char (n mod 10)]"
        by (subst digits.simps) simp
      with dm "1.prems" have "digits (n div 10) = []" by simp
      then show ?thesis by (simp add: digits_not_Nil)
    qed
  next
    case big_m: False
    then have dm: "digits m = digits (m div 10) @ [digit_char (m mod 10)]"
      by (subst digits.simps) simp
    show ?thesis
    proof (cases "n < 10")
      case True
      then have "digits n = [digit_char n]" by (subst digits.simps) simp
      with dm "1.prems" have "digits (m div 10) = []" by simp
      then show ?thesis by (simp add: digits_not_Nil)
    next
      case False
      then have "digits n = digits (n div 10) @ [digit_char (n mod 10)]"
        by (subst digits.simps) simp
      with dm "1.prems" have eq: "digits (m div 10) = digits (n div 10)"
        and last: "digit_char (m mod 10) = digit_char (n mod 10)" by simp_all
      from big_m eq have q: "m div 10 = n div 10" by (rule "1.IH")
      have "m mod 10 = n mod 10"
        by (rule digit_char_inj [OF _ _ last]) simp_all
      with q show ?thesis by (metis div_mult_mod_eq)
    qed
  qed
qed

text \<open>Two integers with the same decimal text are equal: the text of a count says which
  count it is.\<close>

lemma decimal_text_inj: "(decimal_text i = decimal_text j) = (i = j)"
proof
  assume eq: "decimal_text i = decimal_text j"
  show "i = j"
  proof (cases "i < 0")
    case neg_i: True
    show ?thesis
    proof (cases "j < 0")
      case True
      with neg_i eq have "digits (nat (- i)) = digits (nat (- j))"
        by (simp add: decimal_text_def)
      then have "nat (- i) = nat (- j)" by (rule digits_inj)
      with neg_i True show ?thesis by simp
    next
      case False
      with neg_i eq have "CHR ''-'' # digits (nat (- i)) = digits (nat j)"
        by (simp add: decimal_text_def)
      then have "hd (digits (nat j)) = CHR ''-''" by (metis list.sel(1))
      then show ?thesis by (simp add: hd_digits_not_minus)
    qed
  next
    case pos_i: False
    show ?thesis
    proof (cases "j < 0")
      case True
      with pos_i eq have "digits (nat i) = CHR ''-'' # digits (nat (- j))"
        by (simp add: decimal_text_def)
      then have "hd (digits (nat i)) = CHR ''-''" by simp
      then show ?thesis by (simp add: hd_digits_not_minus)
    next
      case False
      with pos_i eq have "digits (nat i) = digits (nat j)"
        by (simp add: decimal_text_def)
      then have "nat i = nat j" by (rule digits_inj)
      with pos_i False show ?thesis by simp
    qed
  qed
qed simp

lemma decimal_text_1: "decimal_text 1 = ''1''"
  by (simp add: decimal_text_def digits.simps digit_char_def)

lemma decimal_text_examples:
  "decimal_text 0 = ''0'' \<and> decimal_text 42 = ''42'' \<and> decimal_text (- 120) = ''-120''"
  by (simp add: decimal_text_def digits.simps digit_char_def)

section \<open>The limit on the digits of a formatted integer\<close>

text \<open>A number has more than \<open>k\<close> digits exactly when it is at least \<open>10 ^ k\<close>.\<close>

lemma length_digits_gt_iff: "0 < k \<Longrightarrow> (k < length (digits n)) = (10 ^ k \<le> n)"
proof (induction n arbitrary: k rule: digits.induct)
  case (1 n)
  show ?case
  proof (cases "n < 10")
    case True
    then have len: "length (digits n) = 1" by (subst digits.simps) simp
    have "(10::nat) ^ 1 \<le> 10 ^ k"
      using "1.prems" by (intro power_increasing) simp_all
    with True have "\<not> 10 ^ k \<le> n" by simp
    with len "1.prems" show ?thesis by simp
  next
    case False
    then have len: "length (digits n) = Suc (length (digits (n div 10)))"
      by (subst digits.simps) simp
    show ?thesis
    proof (cases k)
      case 0
      with "1.prems" show ?thesis by simp
    next
      case (Suc j)
      show ?thesis
      proof (cases "j = 0")
        case True
        with Suc False len show ?thesis
          using digits_not_Nil [of "n div 10"] by (simp add: Suc_le_eq)
      next
        case pos: False
        then have "(j < length (digits (n div 10))) = (10 ^ j \<le> n div 10)"
          using False by (intro "1.IH") simp_all
        also have "\<dots> = (10 ^ j * 10 \<le> n)"
          by (simp add: less_eq_div_iff_mult_less_eq)
        finally show ?thesis using Suc len by (simp add: mult.commute)
      qed
    qed
  qed
qed

lemma limit_pos: "0 < int_max_str_digits"
  by (simp add: int_max_str_digits_def)

lemma fold_limit: "(4300::nat) = int_max_str_digits"
  by (simp add: int_max_str_digits_def)

text \<open>Formatting raises exactly on the integers of absolute value \<open>10 ^ 4300\<close> and
  more, and gives the decimal text of every other.\<close>

lemma format_int_eq:
  "format_int i =
     (if 10 ^ int_max_str_digits \<le> \<bar>i\<bar> then Inl ValueError else Inr (decimal_text i))"
proof -
  have "(int_max_str_digits < length (digits (nat \<bar>i\<bar>)))
          = (10 ^ int_max_str_digits \<le> nat \<bar>i\<bar>)"
    using limit_pos by (rule length_digits_gt_iff)
  also have "\<dots> = (int (10 ^ int_max_str_digits) \<le> \<bar>i\<bar>)"
    by (simp add: le_nat_iff)
  also have "\<dots> = (10 ^ int_max_str_digits \<le> \<bar>i\<bar>)"
    by simp
  finally show ?thesis by (simp add: format_int_def)
qed

lemma one_below_limit: "\<not> (10::int) ^ int_max_str_digits \<le> 1"
proof -
  have "(1::int) < 10 ^ int_max_str_digits"
    using limit_pos by (intro one_less_power) simp_all
  then show ?thesis by simp
qed

lemma format_int_1: "format_int 1 = Inr ''1''"
  using one_below_limit by (simp add: format_int_eq decimal_text_1)

lemma format_int_at_limit:
  "format_int (10 ^ 4300 - 1) = Inr (decimal_text (10 ^ 4300 - 1))
   \<and> format_int (10 ^ 4300) = Inl ValueError
   \<and> format_int (- (10 ^ 4300)) = Inl ValueError"
  unfolding fold_limit by (simp add: format_int_eq)

section \<open>What the functions return on records\<close>

lemma increment_count_valid:
  "increment_count (BasicState (IntV c)) = Inr (BasicState (IntV (c + 1)))"
  by (simp add: increment_count_def try_bind_def getitem_BasicState add_int_def)

lemma add_message_valid:
  "add_message (ComplexState (IntV c) (ListV ms)) t flag =
     Inr (ComplexState (IntV c)
       (ListV (ms @ [if (case flag of None \<Rightarrow> True | Some b \<Rightarrow> b)
                     then HumanMessage t else AIMessage t])))"
  by (simp add: add_message_def try_bind_def getitem_ComplexState_count
      getitem_ComplexState_messages add_list_def Let_def)

lemma increment_node_valid:
  "increment_node (BasicState (IntV c)) = Inr [''count'' \<mapsto> IntV (c + 1)]"
  by (simp add: increment_node_def try_bind_def getitem_BasicState add_int_def)

text \<open>On a list that is not empty, index \<open>-1\<close> is in range and reads the last entry.\<close>

lemma index_last: "ms \<noteq> [] \<Longrightarrow> index (ListV ms) (- 1) = Inr (last ms)"
  by (cases ms rule: rev_cases) (simp_all add: index_def Let_def nat_add_distrib)

text \<open>The step on a record, in full: it raises \<^verbatim>\<open>ValueError\<close> when the new count is too
  long to format, and returns the partial update otherwise.\<close>

lemma process_message_result:
  "process_message (ComplexState (IntV c) (ListV ms)) =
     (if 10 ^ int_max_str_digits \<le> \<bar>c + 1\<bar> then Inl ValueError
      else Inr [''count'' \<mapsto> IntV (c + 1),
          ''messages'' \<mapsto> ListV (ms @ [AIMessage (''Received: ''
             @ (if ms = [] then ''No messages yet'' else content (last ms))
             @ ''. Count is now '' @ decimal_text (c + 1))])])"
  by (simp add: process_message_def try_bind_def getitem_ComplexState_count
      getitem_ComplexState_messages add_list_def add_int_def truthy_def index_last
      format_int_eq Let_def)

lemma process_message_too_long:
  "process_message (ComplexState (IntV (10 ^ int_max_str_digits - 1)) (ListV ms))
     = Inl ValueError"
  by (simp add: process_message_result)

section \<open>Running a graph of one step\<close>

lemma walk_single_step:
  assumes "nodes g name = Some step" and "edges g name = Some END" and "step state = Inr u"
  shows "walk (Suc n) g name state = Inr (state ++ u)"
  using assms by simp

lemma walk_step_error:
  assumes "nodes g name = Some step" and "step state = Inl e"
  shows "walk (Suc n) g name state = Inl e"
  using assms by simp

lemma create_simple_graph_eq:
  "create_simple_graph =
     Inr \<lparr>nodes = [''increment'' \<mapsto> increment_node], entry_point = Some ''increment'',
          edges = [''increment'' \<mapsto> END]\<rparr>"
  by (simp add: create_simple_graph_def StateGraph_init_def add_node_def set_entry_point_def
      add_edge_def compile_def)

lemma create_complex_graph_eq:
  "create_complex_graph =
     Inr \<lparr>nodes = [''process'' \<mapsto> process_message], entry_point = Some ''process'',
          edges = [''process'' \<mapsto> END]\<rparr>"
  by (simp add: create_complex_graph_def StateGraph_init_def add_node_def set_entry_point_def
      add_edge_def compile_def)

lemma invoke_simple_graph:
  "try_bind create_simple_graph (\<lambda>g. invoke g (Suc n) (BasicState (IntV c)))
     = Inr (BasicState (IntV (c + 1)))"
proof -
  let ?g = "\<lparr>nodes = [''increment'' \<mapsto> increment_node], entry_point = Some ''increment'',
          edges = [''increment'' \<mapsto> END]\<rparr>"
  have "walk (Suc n) ?g ''increment'' (BasicState (IntV c))
          = Inr (BasicState (IntV c) ++ [''count'' \<mapsto> IntV (c + 1)])"
    by (rule walk_single_step [where step = increment_node])
       (simp_all add: increment_node_valid)
  then have "invoke ?g (Suc n) (BasicState (IntV c)) = Inr (BasicState (IntV (c + 1)))"
    by (simp only: invoke_def merge_basic StateGraph.simps option.case)
  then show ?thesis
    by (simp only: create_simple_graph_eq try_bind_def sum.case)
qed

lemma invoke_complex_graph:
  "try_bind create_complex_graph (\<lambda>g. invoke g (Suc n) (ComplexState (IntV c) (ListV ms)))
     = (if 10 ^ int_max_str_digits \<le> \<bar>c + 1\<bar> then Inl ValueError
        else Inr (ComplexState (IntV (c + 1)) (ListV (ms @ [AIMessage (''Received: ''
             @ (if ms = [] then ''No messages yet'' else content (last ms))
             @ ''. Count is now '' @ decimal_text (c + 1))]))))"
proof (cases "10 ^ int_max_str_digits \<le> \<bar>c + 1\<bar>")
  case True
  let ?g = "\<lparr>nodes = [''process'' \<mapsto> process_message], entry_point = Some ''process'',
          edges = [''process'' \<mapsto> END]\<rparr>"
  have "walk (Suc n) ?g ''process'' (ComplexState (IntV c) (ListV ms)) = Inl ValueError"
    using True
    by (intro walk_step_error [where step = process_message])
       (simp_all add: process_message_result)
  then have "invoke ?g (Suc n) (ComplexState (IntV c) (ListV ms)) = Inl ValueError"
    by (simp only: invoke_def StateGraph.simps option.case)
  then have "try_bind create_complex_graph
      (\<lambda>g. invoke g (Suc n) (ComplexState (IntV c) (ListV ms))) = Inl ValueError"
    by (simp only: create_complex_graph_eq try_bind_def sum.case)
  with True show ?thesis by simp
next
  case False
  let ?g = "\<lparr>nodes = [''process'' \<mapsto> process_message], entry_point = Some ''process'',
          edges = [''process'' \<mapsto> END]\<rparr>"
  let ?new = "ListV (ms @ [AIMessage (''Received: ''
             @ (if ms = [] then ''No messages yet'' else content (last ms))
             @ ''. Count is now '' @ decimal_text (c + 1))])"
  have "walk (Suc n) ?g ''process'' (ComplexState (IntV c) (ListV ms))
          = Inr (ComplexState (IntV c) (ListV ms)
                  ++ [''count'' \<mapsto> IntV (c + 1), ''messages'' \<mapsto> ?new])"
    using False
    by (intro walk_single_step [where step = process_message])
       (simp_all add: process_message_result)
  then have "invoke ?g (Suc n) (ComplexState (IntV c) (ListV ms))
          = Inr (ComplexState (IntV (c + 1)) ?new)"
    by (simp only: invoke_def merge_complex StateGraph.simps option.case)
  then have "try_bind create_complex_graph
      (\<lambda>g. invoke g (Suc n) (ComplexState (IntV c) (ListV ms)))
        = Inr (ComplexState (IntV (c + 1)) ?new)"
    by (simp only: create_complex_graph_eq try_bind_def sum.case)
  with False show ?thesis by simp
qed

text \<open>With no step left the walk stops with an error: the bound is part of the model.\<close>

lemma invoke_no_fuel:
  "try_bind create_simple_graph (\<lambda>g. invoke g 0 (BasicState (IntV c)))
     = Inl GraphRecursionError"
  by (simp add: create_simple_graph_eq try_bind_def invoke_def)

section \<open>The claims\<close>

text \<open>
  Claim C1. For every complex record (any integer count \<open>c\<close>, any message sequence
  \<open>ms\<close>) and every text \<open>t\<close>, \<^verbatim>\<open>add_message\<close> with the flag true returns a record
  with the same count whose messages are one longer, end with the human entry of content
  \<open>t\<close> and begin with \<open>ms\<close> unchanged; with the flag false the same holds with an
  assistant entry.
\<close>

theorem C1_add_message:
  "(\<exists>ms'. add_message (ComplexState (IntV c) (ListV ms)) t (Some True)
            = Inr (ComplexState (IntV c) (ListV ms'))
        \<and> length ms' = length ms + 1 \<and> last ms' = HumanMessage t
        \<and> take (length ms) ms' = ms \<and> ms' = ms @ [HumanMessage t])
   \<and> (\<exists>ms'. add_message (ComplexState (IntV c) (ListV ms)) t (Some False)
            = Inr (ComplexState (IntV c) (ListV ms'))
        \<and> length ms' = length ms + 1 \<and> last ms' = AIMessage t
        \<and> take (length ms) ms' = ms \<and> ms' = ms @ [AIMessage t])"
  by (simp add: add_message_valid)

text \<open>
  Claim C2. For every basic record (any integer count), \<^verbatim>\<open>increment_count\<close> returns,
  without raising, a record whose count is one more; the result has the key
  \<^verbatim>\<open>count\<close> and no other.
\<close>

theorem C2_increment_count:
  "increment_count (BasicState (IntV c)) = Inr (BasicState (IntV (c + 1)))
   \<and> BasicState (IntV (c + 1)) ''count'' = Some (IntV (c + 1))
   \<and> dom (BasicState (IntV (c + 1))) = {''count''}"
  by (simp add: increment_count_valid) (simp add: BasicState_def)

text \<open>
  Claim C3. Invoking the compiled complex graph on count 0 with the one human message
  \<^verbatim>\<open>Hello, LangGraph!\<close> returns count 1 and the messages followed by the assistant
  entry \<^verbatim>\<open>Received: Hello, LangGraph!. Count is now 1\<close>, for every bound that allows
  one step. The graph is the one whose single step \<^verbatim>\<open>process\<close> is
  \<^verbatim>\<open>process_message\<close>, entered first and connected to the end. On a record the step
  returns the partial update of the count plus one and the messages with the assistant
  entry appended that quotes the last message (or the placeholder) and the new count; it
  raises \<^verbatim>\<open>ValueError\<close> instead when the new count has more than 4300 digits, and the
  invocation does what the step does on every record. The notebook's recorded output shows
  the record of the first line.
\<close>

theorem C3_complex_graph_hello:
  "try_bind create_complex_graph (\<lambda>g. invoke g (Suc n)
       (ComplexState (IntV 0) (ListV [HumanMessage ''Hello, LangGraph!''])))
     = Inr (ComplexState (IntV 1)
         (ListV [HumanMessage ''Hello, LangGraph!'',
                 AIMessage ''Received: Hello, LangGraph!. Count is now 1'']))
   \<and> create_complex_graph
     = Inr \<lparr>nodes = [''process'' \<mapsto> process_message], entry_point = Some ''process'',
            edges = [''process'' \<mapsto> END]\<rparr>
   \<and> process_message (ComplexState (IntV c) (ListV ms))
     = (if 10 ^ int_max_str_digits \<le> \<bar>c + 1\<bar> then Inl ValueError
        else Inr [''count'' \<mapsto> IntV (c + 1),
                  ''messages'' \<mapsto> ListV (ms @ [AIMessage (''Received: ''
                     @ (if ms = [] then ''No messages yet'' else content (last ms))
                     @ ''. Count is now '' @ decimal_text (c + 1))])])
   \<and> try_bind create_complex_graph
        (\<lambda>g. invoke g (Suc n) (ComplexState (IntV c) (ListV ms)))
     = (if 10 ^ int_max_str_digits \<le> \<bar>c + 1\<bar> then Inl ValueError
        else Inr (ComplexState (IntV (c + 1)) (ListV (ms @ [AIMessage (''Received: ''
                     @ (if ms = [] then ''No messages yet'' else content (last ms))
                     @ ''. Count is now '' @ decimal_text (c + 1))]))))"
proof -
  have run: "try_bind create_complex_graph (\<lambda>g. invoke g (Suc n)
       (ComplexState (IntV 0) (ListV [HumanMessage ''Hello, LangGraph!''])))
     = Inr (ComplexState (IntV 1)
         (ListV [HumanMessage ''Hello, LangGraph!'',
                 AIMessage ''Received: Hello, LangGraph!. Count is now 1'']))"
    using invoke_complex_graph [of n 0 "[HumanMessage ''Hello, LangGraph!'']"]
      one_below_limit
    by (simp add: decimal_text_1)
  show ?thesis
    by (intro conjI, rule run, rule create_complex_graph_eq, rule process_message_result,
        rule invoke_complex_graph)
qed

text \<open>
  Claim C4. Invoking the compiled simple graph on count 0 returns count 1, and on every
  count the count plus one, for every bound that allows one step. The graph is the one
  whose single step \<^verbatim>\<open>increment\<close> is \<^verbatim>\<open>increment_node\<close>, entered first and connected
  to the end; the step returns on every basic record the partial update of the count plus
  one.
\<close>

theorem C4_simple_graph_zero:
  "try_bind create_simple_graph (\<lambda>g. invoke g (Suc n) (BasicState (IntV 0)))
     = Inr (BasicState (IntV 1))
   \<and> try_bind create_simple_graph (\<lambda>g. invoke g (Suc n) (BasicState (IntV c)))
     = Inr (BasicState (IntV (c + 1)))
   \<and> create_simple_graph
     = Inr \<lparr>nodes = [''increment'' \<mapsto> increment_node], entry_point = Some ''increment'',
            edges = [''increment'' \<mapsto> END]\<rparr>
   \<and> increment_node (BasicState (IntV c)) = Inr [''count'' \<mapsto> IntV (c + 1)]
   \<and> (\<exists>g. create_simple_graph = Inr g \<and> dom (nodes g) = {''increment''})"
proof -
  have zero: "try_bind create_simple_graph (\<lambda>g. invoke g (Suc n) (BasicState (IntV 0)))
     = Inr (BasicState (IntV 1))"
    using invoke_simple_graph [of n 0] by simp
  have sole: "\<exists>g. create_simple_graph = Inr g \<and> dom (nodes g) = {''increment''}"
    by (simp add: create_simple_graph_eq)
  show ?thesis
    by (intro conjI, rule zero, rule invoke_simple_graph, rule create_simple_graph_eq,
        rule increment_node_valid, rule sole)
qed

text \<open>
  Claim C5. Invoking the compiled complex graph on count 0 with no message returns count 1
  and one assistant entry, whose text contains \<^verbatim>\<open>No messages yet\<close>.
\<close>

theorem C5_complex_graph_empty:
  "\<exists>response before after.
     try_bind create_complex_graph (\<lambda>g. invoke g (Suc n) (ComplexState (IntV 0) (ListV [])))
       = Inr (ComplexState (IntV 1) (ListV [AIMessage response]))
     \<and> response = before @ ''No messages yet'' @ after
     \<and> response = ''Received: No messages yet. Count is now 1''"
proof -
  have "try_bind create_complex_graph
          (\<lambda>g. invoke g (Suc n) (ComplexState (IntV 0) (ListV [])))
        = Inr (ComplexState (IntV 1)
            (ListV [AIMessage ''Received: No messages yet. Count is now 1'']))"
    using invoke_complex_graph [of n 0 "[]"] one_below_limit
    by (simp add: decimal_text_1)
  moreover have "''Received: No messages yet. Count is now 1''
        = ''Received: '' @ ''No messages yet'' @ ''. Count is now 1''"
    by simp
  ultimately show ?thesis by blast
qed

text \<open>
  Claim C6. \<^verbatim>\<open>increment_count\<close> is not idempotent: applied twice to a basic record it
  gives the count plus two, which is not what one application gives; applied \<open>n\<close> times
  it gives the count plus \<open>n\<close>, one more with each call.
\<close>

theorem C6_increment_not_idempotent:
  "try_bind (increment_count (BasicState (IntV c))) increment_count
     = Inr (BasicState (IntV (c + 2)))
   \<and> try_bind (increment_count (BasicState (IntV c))) increment_count
     \<noteq> increment_count (BasicState (IntV c))
   \<and> increment_times n (BasicState (IntV c)) = Inr (BasicState (IntV (c + int n)))"
proof -
  have twice: "try_bind (increment_count (BasicState (IntV c))) increment_count
     = Inr (BasicState (IntV (c + 2)))"
  proof -
    have "try_bind (increment_count (BasicState (IntV c))) increment_count
            = increment_count (BasicState (IntV (c + 1)))"
      by (simp only: increment_count_valid try_bind_def sum.case)
    also have "\<dots> = Inr (BasicState (IntV (c + 1 + 1)))"
      by (rule increment_count_valid)
    also have "c + 1 + 1 = c + 2" by simp
    finally show ?thesis .
  qed
  have differ: "Inr (BasicState (IntV (c + 2))) \<noteq> increment_count (BasicState (IntV c))"
    by (simp add: increment_count_valid BasicState_eq_iff)
  have times: "increment_times n (BasicState (IntV c)) = Inr (BasicState (IntV (c + int n)))"
  proof (induction n arbitrary: c)
    case 0
    show ?case by simp
  next
    case (Suc n)
    have "increment_times (Suc n) (BasicState (IntV c))
            = increment_times n (BasicState (IntV (c + 1)))"
      by (simp add: increment_count_valid try_bind_def)
    also have "\<dots> = Inr (BasicState (IntV (c + 1 + int n)))" by (rule Suc.IH)
    finally show ?case by (simp add: add.commute add.left_commute)
  qed
  have "try_bind (increment_count (BasicState (IntV c))) increment_count
     \<noteq> increment_count (BasicState (IntV c))"
    unfolding twice by (rule differ)
  with twice times show ?thesis by (intro conjI)
qed




text \<open>
  Claim C8, as amended. In the step of the complex graph, on every record whose count plus
  one has at most 4300 digits, the count written into the response text and the count of
  the partial update are the same number, the record's count plus one: the text ends with
  \<^verbatim>\<open>Count is now\<close> and the decimal text of the update's count, and no other integer has
  that decimal text. On the other records the step raises \<^verbatim>\<open>ValueError\<close> while it
  formats the count, and there is neither a text nor an update.
\<close>

theorem C8_response_count_consistent:
  "\<exists>before. process_message (ComplexState (IntV c) (ListV ms))
        = (if 10 ^ int_max_str_digits \<le> \<bar>c + 1\<bar> then Inl ValueError
           else Inr [''count'' \<mapsto> IntV (c + 1),
                     ''messages'' \<mapsto>
                       ListV (ms @ [AIMessage
                         (before @ ''Count is now '' @ decimal_text (c + 1))])])
      \<and> (\<forall>j. (decimal_text j = decimal_text (c + 1)) = (j = c + 1))"
proof -
  let ?before = "''Received: ''
      @ (if ms = [] then ''No messages yet'' else content (last ms)) @ ''. ''"
  have "process_message (ComplexState (IntV c) (ListV ms))
        = (if 10 ^ int_max_str_digits \<le> \<bar>c + 1\<bar> then Inl ValueError
           else Inr [''count'' \<mapsto> IntV (c + 1),
               ''messages'' \<mapsto>
                 ListV (ms @ [AIMessage
                   (?before @ ''Count is now '' @ decimal_text (c + 1))])])"
    by (simp add: process_message_result)
  moreover have "\<forall>j. (decimal_text j = decimal_text (c + 1)) = (j = c + 1)"
    by (simp add: decimal_text_inj)
  ultimately show ?thesis by blast
qed

text \<open>The amended claim at count 41 with one message: the update has count 42 and the
  text ends with \<^verbatim>\<open>Count is now 42\<close>.\<close>

theorem C8_response_count_consistent_witness:
  "\<exists>before. process_message (ComplexState (IntV 41) (ListV [HumanMessage ''hi'']))
     = Inr [''count'' \<mapsto> IntV 42,
            ''messages'' \<mapsto> ListV [HumanMessage ''hi'',
               AIMessage (before @ ''Count is now 42'')]]"
proof -
  have small: "\<not> (10::int) ^ int_max_str_digits \<le> 42"
  proof -
    have "(10::int) ^ 2 \<le> 10 ^ int_max_str_digits"
      by (intro power_increasing) (simp_all add: int_max_str_digits_def)
    then show ?thesis by simp
  qed
  have text42: "decimal_text 42 = ''42''"
    by (simp add: decimal_text_def digits.simps digit_char_def)
  from C8_response_count_consistent [of 41 "[HumanMessage ''hi'']"]
  show ?thesis using small text42 by simp
qed

text \<open>The claim as first stated fails at count \<open>10 ^ 4300 - 1\<close> with the notebook's
  message: no response text is generated and no update is returned.\<close>

theorem C8_counterexample:
  "process_message
     (ComplexState (IntV (10 ^ 4300 - 1)) (ListV [HumanMessage ''Hello, LangGraph!'']))
   = Inl ValueError"
  unfolding fold_limit by (rule process_message_too_long)

text \<open>
  Claim C9, as amended. The step of the complex graph never raises \<^verbatim>\<open>IndexError\<close>: on
  a record with no message it takes the placeholder, and the read of the last entry, which
  alone would raise on the empty list, is not reached. It returns on every complex record
  whose count plus one has at most 4300 digits; on the others, and only on them, it fails,
  with the \<^verbatim>\<open>ValueError\<close> of formatting the count.
\<close>

theorem C9_process_message_total:
  "(\<exists>update. process_message (ComplexState (IntV c) (ListV ms))
        = (if 10 ^ int_max_str_digits \<le> \<bar>c + 1\<bar> then Inl ValueError else Inr update))
   \<and> (\<forall>e. (process_message (ComplexState (IntV c) (ListV ms)) = Inl e)
          = (e = ValueError \<and> 10 ^ int_max_str_digits \<le> \<bar>c + 1\<bar>))
   \<and> process_message (ComplexState (IntV c) (ListV ms)) \<noteq> Inl IndexError
   \<and> process_message (ComplexState (IntV c) (ListV []))
       = (if 10 ^ int_max_str_digits \<le> \<bar>c + 1\<bar> then Inl ValueError
          else Inr [''count'' \<mapsto> IntV (c + 1),
              ''messages'' \<mapsto> ListV [AIMessage
                 (''Received: No messages yet. Count is now '' @ decimal_text (c + 1))]])
   \<and> index (ListV []) (- 1) = Inl IndexError"
proof (intro conjI)
  show "\<exists>update. process_message (ComplexState (IntV c) (ListV ms))
        = (if 10 ^ int_max_str_digits \<le> \<bar>c + 1\<bar> then Inl ValueError else Inr update)"
    by (rule exI) (rule process_message_result)
  show "\<forall>e. (process_message (ComplexState (IntV c) (ListV ms)) = Inl e)
          = (e = ValueError \<and> 10 ^ int_max_str_digits \<le> \<bar>c + 1\<bar>)"
    by (auto simp: process_message_result)
  show "process_message (ComplexState (IntV c) (ListV ms)) \<noteq> Inl IndexError"
    by (simp add: process_message_result)
  show "process_message (ComplexState (IntV c) (ListV []))
       = (if 10 ^ int_max_str_digits \<le> \<bar>c + 1\<bar> then Inl ValueError
          else Inr [''count'' \<mapsto> IntV (c + 1),
              ''messages'' \<mapsto> ListV [AIMessage
                 (''Received: No messages yet. Count is now '' @ decimal_text (c + 1))]])"
    by (simp add: process_message_result)
  show "index (ListV []) (- 1) = Inl IndexError"
    by (simp add: index_def)
qed

text \<open>The amended claim at count 0 with no message: the step returns.\<close>

theorem C9_process_message_total_witness:
  "process_message (ComplexState (IntV 0) (ListV []))
     = Inr [''count'' \<mapsto> IntV 1,
            ''messages'' \<mapsto> ListV [AIMessage ''Received: No messages yet. Count is now 1'']]"
  using C9_process_message_total [of 0 "[]"] one_below_limit
  by (simp add: decimal_text_1)

text \<open>The claim as first stated fails at count \<open>10 ^ 4300 - 1\<close> with no message: the
  step fails, with \<^verbatim>\<open>ValueError\<close>.\<close>

theorem C9_counterexample:
  "process_message (ComplexState (IntV (10 ^ 4300 - 1)) (ListV [])) = Inl ValueError"
  unfolding fold_limit by (rule process_message_too_long)

text \<open>
  Claim C10. A call of \<^verbatim>\<open>add_message\<close> that leaves the flag out behaves as the call with
  the flag true, on every dictionary and text: on every complex record it returns the same
  count and the messages followed by the human entry of the text. The call of the
  notebook, \<^verbatim>\<open>add_message(complex_state, "Hello, LangGraph!")\<close> on count 0 and no
  message, returns the one human entry.
\<close>

theorem C10_add_message_default:
  "add_message state t None = add_message state t (Some True)
   \<and> add_message (ComplexState (IntV c) (ListV ms)) t None
       = Inr (ComplexState (IntV c) (ListV (ms @ [HumanMessage t])))
   \<and> add_message (ComplexState (IntV c) (ListV ms)) t (Some True)
       = Inr (ComplexState (IntV c) (ListV (ms @ [HumanMessage t])))
   \<and> add_message (ComplexState (IntV 0) (ListV [])) ''Hello, LangGraph!'' None
       = Inr (ComplexState (IntV 0) (ListV [HumanMessage ''Hello, LangGraph!'']))"
  by (simp add: add_message_valid) (simp add: add_message_def)

end
